theory Spec2Isabelle
  imports Complex_Main "HOL-Library.Word"
begin

unbundle bit_operations_syntax

section \<open>Data model of the blockchain core\<close>

text \<open>A Node \<open>Buffer\<close> is a list of bytes.\<close>

type_synonym buffer = "8 word list"

text \<open>
  Modelled from the spec: \<open>Quantity\<close> belongs to the package \<open>@ganache/utils\<close>, whose
  code is not in the repository's sources. It converts between a buffer and the unsigned
  integer the buffer encodes: \<open>Quantity.from(buf).toBigInt()\<close> is that integer, or
  \<open>null\<close> for the empty buffer, and \<open>Quantity.from(n).toBuffer()\<close> goes back. A
  header's \<open>number\<close> is kept as the integer its buffer encodes.
\<close>

record header =
  parentHash :: buffer
  number :: nat
  coinbase :: buffer
  timestamp :: int
  gasLimit :: buffer
  transactionsTrie :: buffer
  receiptTrie :: buffer
  stateRoot :: buffer
  gasUsed :: nat

text \<open>
  A transaction as the block pipeline and \<open>revert\<close> see it: \<open>tx.raw\<close>,
  \<open>tx.hash()\<close>, the serialised receipt \<open>tx.getReceipt().serialize(true)\<close> and
  \<open>tx.getLogs()\<close>.
\<close>

record transaction =
  tx_raw :: "buffer list"
  tx_hash :: buffer
  tx_receipt :: buffer
  tx_logs :: "buffer list"

record block =
  header :: header
  transactions :: "transaction list"

text \<open>The object literal pushed by \<open>snapshot()\<close>.\<close>

record snapshot_entry =
  snap_hash :: buffer
  snap_stateRoot :: buffer
  snap_timeAdjustment :: int

text \<open>
  The \<open>blocks\<close> keyspace holds every block twice, under its number and under its
  hash; the two kinds of key are kept apart by a tag.
\<close>

datatype block_key = ByNumber nat | ByHash buffer

text \<open>What the pipeline stores per transaction: \<open>[...tx.raw, blockHash, blockNumber, i]\<close>.\<close>

record stored_transaction =
  st_raw :: "buffer list"
  st_blockHash :: buffer
  st_blockNumber :: nat
  st_index :: nat

text \<open>\<open>BlockLogs\<close>: the block hash, the appended \<open>(index, txHash, log)\<close> entries, the number.\<close>

record blockLogs =
  bl_blockHash :: buffer
  bl_entries :: "(nat \<times> buffer \<times> buffer) list"
  bl_blockNumber :: "nat option"

text \<open>Every write handed to the managers, in the order the code issues it.\<close>

datatype db_op =
    BlocksDel block_key
  | BlocksPut block_key block
  | TransactionsSet buffer stored_transaction
  | TransactionsDel buffer
  | ReceiptsSet buffer buffer
  | ReceiptsDel buffer
  | BlockLogsSet nat blockLogs

text \<open>An error object: its message and the \<open>.result\<close> field that may be attached.\<close>

record js_error =
  message :: string
  result :: "buffer option"

datatype error =
    Error string
  | TypeError
  | PoolError js_error
  | VmError js_error

datatype event =
    Start | Resume | Pause | Stop
  | BlockEvent block
  | BlockLogsEvent blockLogs
  | PendingTransaction transaction
  | TransactionEvent buffer
  | TransactionFailure buffer js_error

text \<open>The \<open>Status\<close> flags, as the 32-bit integers JavaScript's bit operators work on.\<close>

type_synonym status = "32 word"

definition started :: status where "started = 1"
definition starting :: status where "starting = 2"
definition stopped :: status where "stopped = 4"
definition stopping :: status where "stopping = 8"
definition paused :: status where "paused = 16"

record blockchainOptions =
  opt_gasLimit :: buffer
  opt_blockTime :: "int option"
  opt_coinbase :: buffer
  legacyInstamine :: bool
  vmErrorsOnRPCResponse :: bool

text \<open>
  The private and public fields of \<open>Blockchain\<close>, together with the stores behind the
  managers, the log of writes and of emitted events, and the variables the
  \<open>drain\<close> listener closes over: \<open>waitingOnResume\<close>, the number of promises the listener
  has created, those of them still waiting for \<open>resume\<close> (\<open>resume_once\<close>), and those
  whose \<open>resume\<close> has fired and whose continuation is queued but has not run yet
  (\<open>microtasks\<close>).
\<close>

record blockchain =
  state :: status
  latest :: "block option"
  timeAdjustment :: int
  snapshots :: "snapshot_entry list"
  trie_root :: buffer
  blocks_store :: "block_key \<rightharpoonup> block"
  transactions_store :: "buffer \<rightharpoonup> stored_transaction"
  receipts_store :: "buffer \<rightharpoonup> buffer"
  blockLogs_store :: "nat \<rightharpoonup> blockLogs"
  db_writes :: "db_op list"
  db_closed :: bool
  emitted :: "event list"
  waitingOnResume :: "nat option"
  promises :: nat
  resume_once :: "nat list"
  microtasks :: "nat list"
  mine_calls :: "int list"

definition emit :: "event \<Rightarrow> blockchain \<Rightarrow> blockchain" where
  "emit e s = s\<lparr>emitted := emitted s @ [e]\<rparr>"

section \<open>Time control\<close>

text \<open>
  \<open>now\<close> is \<open>Date.now()\<close>, in milliseconds. \<open>Math.floor(x / 1000)\<close> on integers is
  \<open>div\<close>, which rounds towards minus infinity.
\<close>

definition currentTime :: "int \<Rightarrow> blockchain \<Rightarrow> int" where
  "currentTime now s = now div 1000 + timeAdjustment s"

definition increaseTime :: "int \<Rightarrow> blockchain \<Rightarrow> int \<times> blockchain" where
  "increaseTime seconds s =
     (let seconds' = (if seconds < 0 then 0 else seconds);
          v = timeAdjustment s + seconds'
      in (v, s\<lparr>timeAdjustment := v\<rparr>))"

text \<open>
  \<open>setTime(timestamp)\<close> computes \<open>Math.floor((timestamp - Date.now()) / 1000)\<close> on
  IEEE doubles. The timestamp and the clock reading are taken to be integers. While both
  and their difference are at most \<open>2 ^ 53\<close> in magnitude, the subtraction is exact, and
  the quotient, below \<open>2 ^ 44\<close> in magnitude, is rounded by at most \<open>2 ^ -10\<close> and not
  at all when it is an integer, so that its floor is the floor of the exact quotient
  (lemma \<open>floor_of_rounded_quotient\<close>). Outside that range rounding decides the result;
  \<open>beyond\<close> stands for what the doubles yield there.
\<close>

definition exact_range :: "int \<Rightarrow> int \<Rightarrow> bool" where
  "exact_range now t =
     (\<bar>t\<bar> \<le> 2 ^ 53 \<and> \<bar>now\<bar> \<le> 2 ^ 53 \<and> \<bar>t - now\<bar> \<le> 2 ^ 53)"

definition setTime ::
  "(int \<Rightarrow> int \<Rightarrow> int) \<Rightarrow> int \<Rightarrow> int \<Rightarrow> blockchain \<Rightarrow> int \<times> blockchain" where
  "setTime beyond now t s =
     (let v = (if exact_range now t then (t - now) div 1000 else beyond now t)
      in (v, s\<lparr>timeAdjustment := v\<rparr>))"

section \<open>Snapshots\<close>

text \<open>
  \<open>H\<close> is \<open>header.hash()\<close>. \<open>Array.prototype.push\<close> returns the new length. Reading
  \<open>this.blocks.latest.value\<close> while there is no latest block is a \<open>TypeError\<close>.
\<close>

definition snapshot :: "(header \<Rightarrow> buffer) \<Rightarrow> blockchain \<Rightarrow> error + (nat \<times> blockchain)" where
  "snapshot H s =
     (case latest s of
        None \<Rightarrow> Inl TypeError
      | Some latestBlock \<Rightarrow>
          let currentBlockHeader = header latestBlock;
              hash = H currentBlockHeader;
              stateRoot' = stateRoot currentBlockHeader;
              snapshots' = snapshots s @
                [\<lparr>snap_hash = hash, snap_stateRoot = stateRoot',
                  snap_timeAdjustment = timeAdjustment s\<rparr>]
          in Inr (length snapshots', s\<lparr>snapshots := snapshots'\<rparr>))"

section \<open>The managers and the database\<close>

text \<open>
  Modelled from the spec: the managers (\<open>BlockManager\<close>, \<open>TransactionManager\<close>,
  \<open>Manager\<close>) and \<open>Database\<close>, whose code is not in the repository's sources, are typed
  put, get and delete wrappers over the keyspaces; a \<open>get\<close> of a missing key yields
  \<open>null\<close> (here \<open>None\<close>); a block is stored under its number and under its hash; the
  writes of a \<open>batch\<close> are committed as one, before anything that follows the batch
  reads the store.
\<close>

definition blocks_del :: "block_key \<Rightarrow> blockchain \<Rightarrow> blockchain" where
  "blocks_del k s =
     s\<lparr>blocks_store := (blocks_store s)(k := None), db_writes := db_writes s @ [BlocksDel k]\<rparr>"

definition blocks_put :: "block_key \<Rightarrow> block \<Rightarrow> blockchain \<Rightarrow> blockchain" where
  "blocks_put k b s =
     s\<lparr>blocks_store := (blocks_store s)(k \<mapsto> b), db_writes := db_writes s @ [BlocksPut k b]\<rparr>"

definition blocks_get :: "nat \<Rightarrow> blockchain \<Rightarrow> block option" where
  "blocks_get n s = blocks_store s (ByNumber n)"

definition getByHash :: "buffer \<Rightarrow> blockchain \<Rightarrow> block option" where
  "getByHash h s = blocks_store s (ByHash h)"

definition putBlock :: "(header \<Rightarrow> buffer) \<Rightarrow> block \<Rightarrow> blockchain \<Rightarrow> blockchain" where
  "putBlock H b s =
     blocks_put (ByNumber (number (header b))) b (blocks_put (ByHash (H (header b))) b s)"

definition transactions_set :: "buffer \<Rightarrow> stored_transaction \<Rightarrow> blockchain \<Rightarrow> blockchain" where
  "transactions_set k v s =
     s\<lparr>transactions_store := (transactions_store s)(k \<mapsto> v),
       db_writes := db_writes s @ [TransactionsSet k v]\<rparr>"

definition transactions_del :: "buffer \<Rightarrow> blockchain \<Rightarrow> blockchain" where
  "transactions_del k s =
     s\<lparr>transactions_store := (transactions_store s)(k := None),
       db_writes := db_writes s @ [TransactionsDel k]\<rparr>"

definition transactionReceipts_set :: "buffer \<Rightarrow> buffer \<Rightarrow> blockchain \<Rightarrow> blockchain" where
  "transactionReceipts_set k v s =
     s\<lparr>receipts_store := (receipts_store s)(k \<mapsto> v),
       db_writes := db_writes s @ [ReceiptsSet k v]\<rparr>"

definition transactionReceipts_del :: "buffer \<Rightarrow> blockchain \<Rightarrow> blockchain" where
  "transactionReceipts_del k s =
     s\<lparr>receipts_store := (receipts_store s)(k := None),
       db_writes := db_writes s @ [ReceiptsDel k]\<rparr>"

definition blockLogs_set :: "nat \<Rightarrow> blockLogs \<Rightarrow> blockchain \<Rightarrow> blockchain" where
  "blockLogs_set k v s =
     s\<lparr>blockLogs_store := (blockLogs_store s)(k \<mapsto> v),
       db_writes := db_writes s @ [BlockLogsSet k v]\<rparr>"

text \<open>
  Modelled from the spec: the state manager belongs to the external EVM;
  \<open>setStateRoot(root)\<close> makes \<open>root\<close> the root of the state trie.
\<close>

definition setStateRoot :: "buffer \<Rightarrow> blockchain \<Rightarrow> blockchain" where
  "setStateRoot root' s = s\<lparr>trie_root := root'\<rparr>"

section \<open>Revert\<close>

text \<open>\<open>#deleteBlockData\<close> and \<open>revert\<close> of the first unnamed source file (\<open>part_000\<close>).\<close>

definition deleteBlockData :: "(header \<Rightarrow> buffer) \<Rightarrow> block \<Rightarrow> blockchain \<Rightarrow> blockchain" where
  "deleteBlockData H b s =
     fold (\<lambda>tx s'. transactionReceipts_del (tx_hash tx) (transactions_del (tx_hash tx) s'))
       (transactions b)
       (blocks_del (ByHash (H (header b))) (blocks_del (ByNumber (number (header b))) s))"

text \<open>
  The \<open>do ... while (nextBlock)\<close> loop of \<open>revert\<close>: delete the block's data, stop at the
  block whose parent is the snapshot's block, otherwise go on with
  \<open>blocks.get(header.number)\<close>, and stop when that is \<open>null\<close>.
\<close>

function revert_loop ::
  "(header \<Rightarrow> buffer) \<Rightarrow> buffer \<Rightarrow> block \<Rightarrow> blockchain \<Rightarrow> blockchain" where
  "revert_loop H snapshotHash nextBlock s =
     (let s' = deleteBlockData H nextBlock s;
          hd' = header nextBlock
      in if parentHash hd' = snapshotHash then s'
         else (case blocks_get (number hd') s' of
                 None \<Rightarrow> s'
               | Some nextBlock' \<Rightarrow> revert_loop H snapshotHash nextBlock' s'))"
  by pat_completeness auto
termination
proof -
  have kept: "blocks_store
       (fold (\<lambda>tx s'. transactionReceipts_del (tx_hash tx) (transactions_del (tx_hash tx) s'))
          txs s) = blocks_store s" for txs :: "transaction list" and s
    by (induction txs arbitrary: s)
       (simp_all add: transactionReceipts_del_def transactions_del_def)
  have gone: "blocks_get (number (header b)) (deleteBlockData H b s) = None" for H b s
    by (simp add: blocks_get_def deleteBlockData_def blocks_del_def kept)
  show ?thesis
    by (relation "{}") (simp_all add: gone)
qed

text \<open>
  \<open>snapshotId.valueOf()\<close> is a bigint, \<open>null\<close> or \<open>undefined\<close>; the last two are
  \<open>None\<close>. \<open>splice(k)\<close> with \<open>k\<close> not below the length removes nothing, and
  \<open>shift()\<close> on an empty array is \<open>undefined\<close>.
\<close>

definition revert ::
  "(header \<Rightarrow> buffer) \<Rightarrow> int option \<Rightarrow> blockchain \<Rightarrow> error + (bool \<times> blockchain)" where
  "revert H snapshotId s =
     (case snapshotId of
        None \<Rightarrow> Inl (Error ''invalid snapshotId'')
      | Some rawValue \<Rightarrow>
          let snapshotNumber = rawValue - 1 in
          if snapshotNumber < 0 then Inr (False, s)
          else
            let snapshotsToRemove = drop (nat snapshotNumber) (snapshots s);
                s1 = s\<lparr>snapshots := take (nat snapshotNumber) (snapshots s)\<rparr>
            in (case snapshotsToRemove of
                  [] \<Rightarrow> Inr (False, s1)
                | snapshot' # _ \<Rightarrow>
                    (case latest s1 of
                       None \<Rightarrow> Inl TypeError
                     | Some currentBlock \<Rightarrow>
                         let currentHash = H (header currentBlock);
                             snapshotHash = snap_hash snapshot'
                         in if currentHash = snapshotHash then Inr (True, s1)
                            else
                              let s2 = setStateRoot (snap_stateRoot snapshot') s1;
                                  latest' = getByHash snapshotHash s2;
                                  s3 = revert_loop H snapshotHash currentBlock s2
                              in Inr (True, s3\<lparr>latest := latest',
                                          timeAdjustment := snap_timeAdjustment snapshot'\<rparr>))))"

text \<open>
  \<open>#deleteBlockData\<close> and \<open>revert\<close> of \<open>src/chains/ethereum/src/blockchain.ts\<close>.
\<close>

definition deleteBlockData_chains ::
  "(header \<Rightarrow> buffer) \<Rightarrow> block \<Rightarrow> blockchain \<Rightarrow> blockchain" where
  "deleteBlockData_chains H b s =
     fold (\<lambda>tx s'. transactionReceipts_del (tx_hash tx) (transactions_del (tx_hash tx) s'))
       (transactions b)
       (blocks_del (ByHash (H (header b))) (blocks_del (ByNumber (number (header b))) s))"

function revert_loop_chains ::
  "(header \<Rightarrow> buffer) \<Rightarrow> buffer \<Rightarrow> block \<Rightarrow> blockchain \<Rightarrow> blockchain" where
  "revert_loop_chains H snapshotHash nextBlock s =
     (let s' = deleteBlockData_chains H nextBlock s;
          hd' = header nextBlock
      in if parentHash hd' = snapshotHash then s'
         else (case blocks_get (number hd') s' of
                 None \<Rightarrow> s'
               | Some nextBlock' \<Rightarrow> revert_loop_chains H snapshotHash nextBlock' s'))"
  by pat_completeness auto
termination
proof -
  have kept: "blocks_store
       (fold (\<lambda>tx s'. transactionReceipts_del (tx_hash tx) (transactions_del (tx_hash tx) s'))
          txs s) = blocks_store s" for txs :: "transaction list" and s
    by (induction txs arbitrary: s)
       (simp_all add: transactionReceipts_del_def transactions_del_def)
  have gone: "blocks_get (number (header b)) (deleteBlockData_chains H b s) = None" for H b s
    by (simp add: blocks_get_def deleteBlockData_chains_def blocks_del_def kept)
  show ?thesis
    by (relation "{}") (simp_all add: gone)
qed

definition revert_chains ::
  "(header \<Rightarrow> buffer) \<Rightarrow> int option \<Rightarrow> blockchain \<Rightarrow> error + (bool \<times> blockchain)" where
  "revert_chains H snapshotId s =
     (case snapshotId of
        None \<Rightarrow> Inl (Error ''invalid snapshotId'')
      | Some rawValue \<Rightarrow>
          let snapshotNumber = rawValue - 1 in
          if snapshotNumber < 0 then Inr (False, s)
          else
            let snapshotsToRemove = drop (nat snapshotNumber) (snapshots s);
                s1 = s\<lparr>snapshots := take (nat snapshotNumber) (snapshots s)\<rparr>
            in (case snapshotsToRemove of
                  [] \<Rightarrow> Inr (False, s1)
                | snapshot' # _ \<Rightarrow>
                    (case latest s1 of
                       None \<Rightarrow> Inl TypeError
                     | Some currentBlock \<Rightarrow>
                         let currentHash = H (header currentBlock);
                             snapshotHash = snap_hash snapshot'
                         in if currentHash = snapshotHash then Inr (True, s1)
                            else
                              let s2 = setStateRoot (snap_stateRoot snapshot') s1;
                                  latest' = getByHash snapshotHash s2;
                                  s3 = revert_loop_chains H snapshotHash currentBlock s2
                              in Inr (True, s3\<lparr>latest := latest',
                                          timeAdjustment := snap_timeAdjustment snapshot'\<rparr>))))"

section \<open>Lifecycle\<close>

definition isPaused :: "blockchain \<Rightarrow> bool" where
  "isPaused s = (state s AND paused \<noteq> 0)"

definition isMining :: "blockchain \<Rightarrow> bool" where
  "isMining s = (state s = started)"

definition pause :: "blockchain \<Rightarrow> blockchain" where
  "pause s = emit Pause (s\<lparr>state := state s OR paused\<rparr>)"








text \<open>
  The end of the constructor's \<open>ready\<close> handler: the genesis block becomes the latest
  block, the state becomes \<open>started\<close>, \<open>start\<close> is emitted.
\<close>

definition ready_done :: "block \<Rightarrow> blockchain \<Rightarrow> blockchain" where
  "ready_done genesis s = emit Start (s\<lparr>latest := Some genesis, state := started\<rparr>)"

definition database_close :: "blockchain \<Rightarrow> blockchain" where
  "database_close s = s\<lparr>db_closed := True\<rparr>"

text \<open>
  \<open>stop\<close>. In state \<open>starting\<close> it waits for \<open>start\<close>: \<open>genesis\<close> is the block the
  initialisation ends with, or \<open>None\<close> when the database never becomes ready, in which case
  \<open>stop\<close> does not return (\<open>None\<close>).
\<close>

definition stop :: "block option \<Rightarrow> blockchain \<Rightarrow> blockchain option" where
  "stop genesis s =
     (case (if state s = starting then map_option (\<lambda>g. ready_done g s) genesis else Some s) of
        None \<Rightarrow> None
      | Some s1 \<Rightarrow>
          let s2 = (if state s1 = started
                    then (database_close (s1\<lparr>state := stopping\<rparr>))\<lparr>state := stopped\<rparr>
                    else s1)
          in Some (emit Stop s2))"

section \<open>Queueing a transaction\<close>

definition instamine :: "blockchainOptions \<Rightarrow> bool" where
  "instamine options = (case opt_blockTime options of None \<Rightarrow> True | Some t \<Rightarrow> t = 0 \<or> t \<le> 0)"

text \<open>
  Which of \<open>transaction:<hash>\<close> and \<open>transaction-failure:<hash>\<close> fires first, with the
  error the failure carries; or neither, and the race never settles.
\<close>

datatype race = Completed | Failed js_error | Neither

text \<open>
  \<open>pushed\<close> is what \<open>this.transactions.push\<close> does: it throws, or it answers whether
  the pool took the transaction, and leaves the transaction as the pool changed it.
  The result is \<open>None\<close> when the call never returns.
\<close>

definition queueTransaction ::
  "blockchainOptions \<Rightarrow> (js_error + bool \<times> transaction) \<Rightarrow> race \<Rightarrow> blockchain
     \<Rightarrow> ((error + buffer) \<times> blockchain) option" where
  "queueTransaction options pushed raced s =
     (case pushed of
        Inl e \<Rightarrow> Some (Inl (PoolError e), s)
      | Inr (accepted, tx) \<Rightarrow>
          let s1 = (if accepted then emit (PendingTransaction tx) s else s);
              hash = tx_hash tx
          in if isPaused s1 \<or> \<not> instamine options then Some (Inr hash, s1)
             else if instamine options \<and> legacyInstamine options then
               (case raced of
                  Completed \<Rightarrow> Some (Inr hash, s1)
                | Failed errOrVoid \<Rightarrow>
                    Some (Inl (VmError
                      (if vmErrorsOnRPCResponse options = True
                       then errOrVoid\<lparr>result := Some hash\<rparr> else errOrVoid)), s1)
                | Neither \<Rightarrow> None)
             else Some (Inr hash, s1))"

section \<open>The block commit pipeline\<close>

text \<open>What the miner hands to the \<open>block\<close> listener: the fields the listener reads.\<close>

record blockData =
  bd_timestamp :: int
  bd_transactionsTrie :: buffer
  bd_receiptTrie :: buffer
  bd_gasUsed :: nat
  bd_blockTransactions :: "transaction list"

text \<open>
  Modelled from the spec: \<open>BlockLogs\<close>, whose code is not in the repository's sources,
  is created for a block hash and collects \<open>(transactionIndex, transactionHash, log)\<close>
  entries in the order they are appended.
\<close>

definition BlockLogs_create :: "buffer \<Rightarrow> blockLogs" where
  "BlockLogs_create blockHash =
     \<lparr>bl_blockHash = blockHash, bl_entries = [], bl_blockNumber = None\<rparr>"

definition BlockLogs_append :: "nat \<Rightarrow> buffer \<Rightarrow> buffer \<Rightarrow> blockLogs \<Rightarrow> blockLogs" where
  "BlockLogs_append i txHash log' l = l\<lparr>bl_entries := bl_entries l @ [(i, txHash, log')]\<rparr>"

text \<open>
  Modelled from the spec: \<open>BlockManager.createBlock\<close>, whose code is not in the
  repository's sources, constructs a block with the header fields it is given and no
  transactions yet.
\<close>

definition createBlock :: "header \<Rightarrow> block" where
  "createBlock h = \<lparr>header = h, transactions = []\<rparr>"

text \<open>The body of \<open>blockData.blockTransactions.forEach((tx, i) => ...)\<close> in the batch.\<close>

definition persist_transaction ::
  "buffer \<Rightarrow> nat \<Rightarrow> nat \<times> transaction \<Rightarrow> blockLogs \<times> blockchain \<Rightarrow> blockLogs \<times> blockchain" where
  "persist_transaction blockHash blockNumber itx acc =
     (let i = fst itx; tx = snd itx; hash = tx_hash tx;
          extraData = \<lparr>st_raw = tx_raw tx, st_blockHash = blockHash,
                        st_blockNumber = blockNumber, st_index = i\<rparr>;
          s1 = transactions_set hash extraData (snd acc);
          s2 = transactionReceipts_set hash (tx_receipt tx) s1
      in (fold (BlockLogs_append i hash) (tx_logs tx) (fst acc), s2))"

text \<open>
  The \<open>miner.on("block")\<close> listener of the first unnamed source file
  (\<open>part_000\<close>), run to the end of
  its \<open>processingBlock.then\<close> continuation. \<open>x || 0n\<close> yields \<open>0n\<close> for \<open>null\<close>
  and for \<open>0n\<close>.
\<close>

definition on_block ::
  "(header \<Rightarrow> buffer) \<Rightarrow> blockchainOptions \<Rightarrow> blockData \<Rightarrow> blockchain \<Rightarrow> error + blockchain" where
  "on_block H options bd s =
     (case latest s of
        None \<Rightarrow> Inl TypeError
      | Some previousBlock \<Rightarrow>
          let previousHeader = header previousBlock;
              previousNumber = (if number previousHeader = 0 then 0 else number previousHeader);
              block0 = createBlock
                         \<lparr>parentHash = H previousHeader,
                           number = previousNumber + 1,
                           coinbase = opt_coinbase options,
                           timestamp = bd_timestamp bd,
                           gasLimit = opt_gasLimit options,
                           transactionsTrie = bd_transactionsTrie bd,
                           receiptTrie = bd_receiptTrie bd,
                           stateRoot = trie_root s,
                           gasUsed = bd_gasUsed bd\<rparr>;
              s1 = s\<lparr>latest := Some block0\<rparr>;
              blockHash = H (header block0);
              blockNumber = number (header block0);
              acc = fold (persist_transaction blockHash blockNumber)
                      (enumerate 0 (bd_blockTransactions bd)) (BlockLogs_create blockHash, s1);
              blockLogs' = (fst acc)\<lparr>bl_blockNumber := Some blockNumber\<rparr>;
              s2 = blockLogs_set blockNumber blockLogs' (snd acc);
              block1 = block0\<lparr>transactions := bd_blockTransactions bd\<rparr>;
              s3 = putBlock H block1 s2;
              s4 = s3\<lparr>latest := Some block1\<rparr>;
              s5 = (if instamine options \<and> legacyInstamine options
                    then fold (\<lambda>tx. emit (TransactionEvent (tx_hash tx))) (transactions block1) s4
                    else s4)
          in Inr (emit (BlockLogsEvent blockLogs') (emit (BlockEvent block1) s5)))"

text \<open>
  A run of the pipeline: the listener handles the miner's blocks one after the other.
  \<open>committed\<close> reads the blocks announced by \<open>block\<close> events off the event log, and
  \<open>linked_from\<close> says that a list of blocks continues the chain after \<open>prev\<close>.
\<close>

fun on_blocks ::
  "(header \<Rightarrow> buffer) \<Rightarrow> blockchainOptions \<Rightarrow> blockData list \<Rightarrow> blockchain
     \<Rightarrow> error + blockchain" where
  "on_blocks H options [] s = Inr s"
| "on_blocks H options (bd # bds) s =
     (case on_block H options bd s of
        Inl e \<Rightarrow> Inl e
      | Inr s' \<Rightarrow> on_blocks H options bds s')"

definition committed :: "blockchain \<Rightarrow> block list" where
  "committed s = concat (map (\<lambda>e. case e of BlockEvent b \<Rightarrow> [b] | _ \<Rightarrow> []) (emitted s))"

fun linked_from :: "(header \<Rightarrow> buffer) \<Rightarrow> block \<Rightarrow> block list \<Rightarrow> bool" where
  "linked_from H prev [] = True"
| "linked_from H prev (b # bs) =
     (parentHash (header b) = H (header prev) \<and> number (header b) = number (header prev) + 1
      \<and> linked_from H b bs)"

text \<open>The body of the \<open>forEach\<close> in \<open>src/chains/ethereum/src/blockchain.ts\<close>.\<close>

definition persist_transaction_chains ::
  "buffer \<Rightarrow> nat \<Rightarrow> nat \<times> transaction \<Rightarrow> blockchain \<Rightarrow> blockchain" where
  "persist_transaction_chains blockHash blockNumber itx s =
     (let i = fst itx; tx = snd itx; hash = tx_hash tx;
          extraData = \<lparr>st_raw = tx_raw tx, st_blockHash = blockHash,
                        st_blockNumber = blockNumber, st_index = i\<rparr>;
          s1 = transactions_set hash extraData s
      in transactionReceipts_set hash (tx_receipt tx) s1)"

text \<open>
  The \<open>miner.on("block")\<close> listener of \<open>src/chains/ethereum/src/blockchain.ts\<close>; the
  timestamp is \<open>this.#currentTime()\<close>.
\<close>

definition on_block_chains ::
  "(header \<Rightarrow> buffer) \<Rightarrow> blockchainOptions \<Rightarrow> int \<Rightarrow> blockData \<Rightarrow> blockchain
     \<Rightarrow> error + blockchain" where
  "on_block_chains H options now bd s =
     (case latest s of
        None \<Rightarrow> Inl TypeError
      | Some previousBlock \<Rightarrow>
          let previousHeader = header previousBlock;
              previousNumber = (if number previousHeader = 0 then 0 else number previousHeader);
              block0 = createBlock
                         \<lparr>parentHash = H previousHeader,
                           number = previousNumber + 1,
                           coinbase = opt_coinbase options,
                           timestamp = currentTime now s,
                           gasLimit = opt_gasLimit options,
                           transactionsTrie = bd_transactionsTrie bd,
                           receiptTrie = bd_receiptTrie bd,
                           stateRoot = trie_root s,
                           gasUsed = bd_gasUsed bd\<rparr>;
              s1 = s\<lparr>latest := Some block0\<rparr>;
              s2 = fold (persist_transaction_chains (H (header block0)) (number (header block0)))
                     (enumerate 0 (bd_blockTransactions bd)) s1;
              block1 = block0\<lparr>transactions := bd_blockTransactions bd\<rparr>;
              s3 = putBlock H block1 s2;
              s4 = s3\<lparr>latest := Some block1\<rparr>
          in Inr (emit (BlockEvent block1) s4))"

section \<open>The executor\<close>











section \<open>A small chain, for concrete runs\<close>

definition hash0 :: "header \<Rightarrow> buffer" where
  "hash0 h = [of_nat (number h), of_nat (length (parentHash h))]"

definition genesis0 :: block where
  "genesis0 =
     \<lparr>header = \<lparr>parentHash = [], number = 0, coinbase = [], timestamp = 1577836800,
                 gasLimit = [91, 141, 128], transactionsTrie = [], receiptTrie = [],
                 stateRoot = [7], gasUsed = 0\<rparr>,
       transactions = []\<rparr>"

definition chain0 :: blockchain where
  "chain0 =
     \<lparr>state = started, latest = Some genesis0, timeAdjustment = 0, snapshots = [],
       trie_root = [7],
       blocks_store = [ByNumber 0 \<mapsto> genesis0, ByHash (hash0 (header genesis0)) \<mapsto> genesis0],
       transactions_store = Map.empty, receipts_store = Map.empty,
       blockLogs_store = Map.empty, db_writes = [], db_closed = False, emitted = [],
       waitingOnResume = None, promises = 0, resume_once = [], microtasks = [],
       mine_calls = []\<rparr>"

definition options0 :: blockchainOptions where
  "options0 =
     \<lparr>opt_gasLimit = [91, 141, 128], opt_blockTime = None, opt_coinbase = [1],
       legacyInstamine = True, vmErrorsOnRPCResponse = True\<rparr>"

definition tx0 :: transaction where
  "tx0 = \<lparr>tx_raw = [[1], [2]], tx_hash = [170], tx_receipt = [5], tx_logs = [[9]]\<rparr>"

definition blockData0 :: blockData where
  "blockData0 =
     \<lparr>bd_timestamp = 1577836801, bd_transactionsTrie = [3], bd_receiptTrie = [4],
       bd_gasUsed = 21000, bd_blockTransactions = [tx0]\<rparr>"


section \<open>Supporting lemmas\<close>

subsection \<open>The paused bit\<close>



lemma isPaused_emit [simp]: "isPaused (emit e s) = isPaused s"
  by (simp add: isPaused_def emit_def)

lemma isPaused_pause: "isPaused (pause s)"
  by (simp add: pause_def emit_def isPaused_def paused_def)

subsection \<open>Deleting a block's data\<close>

lemma fold_tx_del_frame:
  fixes txs :: "transaction list"
  defines "del \<equiv> (\<lambda>tx s'. transactionReceipts_del (tx_hash tx) (transactions_del (tx_hash tx) s'))"
  shows "blocks_store (fold del txs s) = blocks_store s"
    and "latest (fold del txs s) = latest s"
    and "snapshots (fold del txs s) = snapshots s"
    and "timeAdjustment (fold del txs s) = timeAdjustment s"
    and "trie_root (fold del txs s) = trie_root s"
  unfolding del_def
  by (induction txs arbitrary: s; simp add: transactionReceipts_del_def transactions_del_def)+

lemma deleteBlockData_frame [simp]:
  "latest (deleteBlockData H b s) = latest s"
  "snapshots (deleteBlockData H b s) = snapshots s"
  "timeAdjustment (deleteBlockData H b s) = timeAdjustment s"
  "trie_root (deleteBlockData H b s) = trie_root s"
  by (simp_all add: deleteBlockData_def fold_tx_del_frame blocks_del_def)

lemma blocks_get_deleteBlockData [simp]:
  "blocks_get (number (header b)) (deleteBlockData H b s) = None"
  by (simp add: blocks_get_def deleteBlockData_def blocks_del_def fold_tx_del_frame)

lemma db_writes_fold_tx_del:
  "db_writes
     (fold (\<lambda>tx s'. transactionReceipts_del (tx_hash tx) (transactions_del (tx_hash tx) s'))
        txs s)
   = db_writes s @ concat (map (\<lambda>tx. [TransactionsDel (tx_hash tx), ReceiptsDel (tx_hash tx)]) txs)"
  by (induction txs arbitrary: s)
     (simp_all add: transactionReceipts_del_def transactions_del_def)

text \<open>The deletions \<open>#deleteBlockData\<close> issues, in their order.\<close>

lemma db_writes_deleteBlockData:
  "db_writes (deleteBlockData H b s) =
     db_writes s @
     [BlocksDel (ByNumber (number (header b))), BlocksDel (ByHash (H (header b)))] @
     concat (map (\<lambda>tx. [TransactionsDel (tx_hash tx), ReceiptsDel (tx_hash tx)])
               (transactions b))"
  by (simp add: deleteBlockData_def db_writes_fold_tx_del blocks_del_def)

text \<open>
  Once a block's data is deleted, \<open>blocks.get(header.number)\<close> finds nothing under that
  block's own number: the walk of \<open>revert\<close> ends after the first block.
\<close>

lemma revert_loop_once: "revert_loop H h b s = deleteBlockData H b s"
  by (simp add: Let_def)

lemma deleteBlockData_chains_eq: "deleteBlockData_chains = deleteBlockData"
  by (intro ext) (simp add: deleteBlockData_chains_def deleteBlockData_def)

lemma revert_loop_chains_eq: "revert_loop_chains = revert_loop"
proof (intro ext)
  fix H h b s
  show "revert_loop_chains H h b s = revert_loop H h b s"
    by (induction H h b s rule: revert_loop.induct)
       (simp add: deleteBlockData_chains_eq Let_def split: option.splits)
qed

subsection \<open>The two branches of a revert that finds its snapshot\<close>

lemma revert_tip_unchanged:
  assumes "latest s = Some b" and "k < length (snapshots s)"
    and "H (header b) = snap_hash (snapshots s ! k)"
  shows "revert H (Some (int k + 1)) s = Inr (True, s\<lparr>snapshots := take k (snapshots s)\<rparr>)"
  using assms by (simp add: revert_def Let_def Cons_nth_drop_Suc [symmetric])

lemma revert_tip_moved:
  assumes "latest s = Some b" and "k < length (snapshots s)"
    and "H (header b) \<noteq> snap_hash (snapshots s ! k)"
  shows "\<exists>s'. revert H (Some (int k + 1)) s = Inr (True, s')
     \<and> latest s' = blocks_store s (ByHash (snap_hash (snapshots s ! k)))
     \<and> timeAdjustment s' = snap_timeAdjustment (snapshots s ! k)
     \<and> trie_root s' = snap_stateRoot (snapshots s ! k)
     \<and> snapshots s' = take k (snapshots s)"
  using assms
  by (simp add: revert_def Let_def Cons_nth_drop_Suc [symmetric] getByHash_def setStateRoot_def)

subsection \<open>Stopping\<close>

lemma stop_from_started:
  "state s = started \<Longrightarrow>
     stop g s = Some (emit Stop (s\<lparr>state := stopped, db_closed := True\<rparr>))"
  by (simp add: stop_def started_def starting_def Let_def database_close_def emit_def)

lemma stop_from_started_paused:
  "state s = started OR paused \<Longrightarrow> stop g s = Some (emit Stop s)"
  by (simp add: stop_def started_def paused_def starting_def Let_def)

subsection \<open>The drain listener while paused\<close>




subsection \<open>What the block pipeline leaves alone\<close>

lemma fold_persist_frame:
  "latest (snd (fold (persist_transaction bh bn) itxs acc)) = latest (snd acc)"
  "blocks_store (snd (fold (persist_transaction bh bn) itxs acc)) = blocks_store (snd acc)"
  by (induction itxs arbitrary: acc;
      simp add: persist_transaction_def Let_def transactions_set_def transactionReceipts_set_def)+

lemma fold_persist_chains_frame:
  "latest (fold (persist_transaction_chains bh bn) itxs s) = latest s"
  "blocks_store (fold (persist_transaction_chains bh bn) itxs s) = blocks_store s"
  by (induction itxs arbitrary: s;
      simp add: persist_transaction_chains_def Let_def transactions_set_def
        transactionReceipts_set_def)+

lemma fold_emit_frame:
  "latest (fold (\<lambda>tx. emit (f tx)) txs s) = latest s"
  "blocks_store (fold (\<lambda>tx. emit (f tx)) txs s) = blocks_store s"
  "emitted (fold (\<lambda>tx. emit (f tx)) txs s) = emitted s @ map f txs"
  by (induction txs arbitrary: s; simp add: emit_def)+

lemma latest_emit: "latest (emit e s) = latest s"
  by (simp add: emit_def)

lemma committed_emit:
  "committed (emit e s) = committed s @ (case e of BlockEvent b \<Rightarrow> [b] | _ \<Rightarrow> [])"
  by (simp add: committed_def emit_def)

lemma committed_fold_tx_events:
  "committed (fold (\<lambda>tx. emit (TransactionEvent (tx_hash tx))) txs s) = committed s"
  by (induction txs arbitrary: s) (simp_all add: committed_emit)

lemma emitted_fold_persist:
  "emitted (snd (fold (persist_transaction bh bn) itxs acc)) = emitted (snd acc)"
  by (induction itxs arbitrary: acc)
     (simp_all add: persist_transaction_def Let_def transactions_set_def
        transactionReceipts_set_def)

lemma on_block_step:
  assumes "latest s = Some prev"
  shows "\<exists>s' b. on_block H options bd s = Inr s' \<and> latest s' = Some b
      \<and> parentHash (header b) = H (header prev)
      \<and> number (header b) = number (header prev) + 1
      \<and> committed s' = committed s @ [b]"
  using assms
  by (simp add: on_block_def createBlock_def Let_def putBlock_def blocks_put_def blockLogs_set_def
      committed_emit committed_fold_tx_events fold_emit_frame latest_emit)
     (simp add: committed_def emitted_fold_persist)

text \<open>
  Over a whole run, the blocks announced one after the other form a chain that starts at
  the block that was latest before the run, and the last of them is the latest block.
\<close>

lemma on_blocks_linked:
  assumes "latest s = Some prev"
  shows "\<exists>s' bs. on_blocks H options bds s = Inr s'
      \<and> committed s' = committed s @ bs \<and> length bs = length bds
      \<and> linked_from H prev bs \<and> latest s' = Some (last (prev # bs))"
  using assms
proof (induction bds arbitrary: s prev)
  case Nil
  then show ?case by simp
next
  case (Cons bd bds)
  from on_block_step [OF Cons.prems, of H options bd]
  obtain s1 b where s1: "on_block H options bd s = Inr s1" "latest s1 = Some b"
    "parentHash (header b) = H (header prev)" "number (header b) = number (header prev) + 1"
    "committed s1 = committed s @ [b]" by blast
  from Cons.IH [OF s1(2)]
  obtain s' bs where r: "on_blocks H options bds s1 = Inr s'"
    "committed s' = committed s1 @ bs" "length bs = length bds"
    "linked_from H b bs" "latest s' = Some (last (b # bs))" by blast
  show ?case
    using s1 r by (intro exI [of _ s'] exI [of _ "b # bs"]) simp
qed

subsection \<open>Rounding a quotient before taking its floor\<close>

lemma floor_of_rounded_quotient:
  fixes a :: int and r :: real
  assumes near: "\<bar>r - real_of_int a / 1000\<bar> \<le> 1 / 1024"
    and exact: "1000 dvd a \<Longrightarrow> r = real_of_int a / 1000"
  shows "\<lfloor>r\<rfloor> = a div 1000"
proof (cases "1000 dvd a")
  case True
  then obtain k where k: "a = 1000 * k" by (auto simp: dvd_def)
  then have "r = real_of_int k" using exact [OF True] by simp
  then show ?thesis using k by simp
next
  case False
  define n where "n = a div 1000"
  define m where "m = a mod 1000"
  have a: "a = 1000 * n + m" by (simp add: n_def m_def)
  have "m \<noteq> 0" using False by (simp add: m_def mod_eq_0_iff_dvd)
  moreover have "0 \<le> m" "m < 1000" by (simp_all add: m_def)
  ultimately have m: "1 \<le> m" "m \<le> 999" by simp_all
  have q: "real_of_int a / 1000 = real_of_int n + real_of_int m / 1000"
    by (simp add: a)
  have mr: "1 \<le> real_of_int m" "real_of_int m \<le> 999" using m by linarith+
  have near': "real_of_int a / 1000 - 1 / 1024 \<le> r" "r \<le> real_of_int a / 1000 + 1 / 1024"
    using near by linarith+
  have lo: "real_of_int n < r" using near'(1) q mr(1) by linarith
  have hi: "r < real_of_int n + 1" using near'(2) q mr(2) by linarith
  have "\<lfloor>r\<rfloor> = n" using lo hi by (intro floor_unique) simp_all
  then show ?thesis by (simp add: n_def)
qed

section \<open>The claims\<close>

text \<open>
  C1. Every block that goes through the miner's \<open>block\<close> listener, in either source
  file, is committed (stored under its number and its hash, made the latest block and
  announced) with \<open>parentHash\<close> equal to the hash of the header of the block that was
  latest when the listener ran, and with a number one above that block's number, hence above
  zero.
\<close>

theorem block_pipeline_links_to_previous_latest:
  assumes "latest s = Some prev"
  shows "(\<exists>s' b. on_block H options bd s = Inr s'
            \<and> latest s' = Some b
            \<and> parentHash (header b) = H (header prev)
            \<and> number (header b) = number (header prev) + 1
            \<and> 0 < number (header b)
            \<and> blocks_store s' (ByNumber (number (header b))) = Some b
            \<and> blocks_store s' (ByHash (H (header b))) = Some b
            \<and> BlockEvent b \<in> set (emitted s'))
       \<and> (\<exists>s' b. on_block_chains H options now bd s = Inr s'
            \<and> latest s' = Some b
            \<and> parentHash (header b) = H (header prev)
            \<and> number (header b) = number (header prev) + 1
            \<and> 0 < number (header b)
            \<and> blocks_store s' (ByNumber (number (header b))) = Some b
            \<and> blocks_store s' (ByHash (H (header b))) = Some b
            \<and> BlockEvent b \<in> set (emitted s'))"
proof
  show "\<exists>s' b. on_block H options bd s = Inr s'
            \<and> latest s' = Some b
            \<and> parentHash (header b) = H (header prev)
            \<and> number (header b) = number (header prev) + 1
            \<and> 0 < number (header b)
            \<and> blocks_store s' (ByNumber (number (header b))) = Some b
            \<and> blocks_store s' (ByHash (H (header b))) = Some b
            \<and> BlockEvent b \<in> set (emitted s')"
    using assms
    by (simp add: on_block_def createBlock_def Let_def putBlock_def blocks_put_def blockLogs_set_def emit_def
        fold_persist_frame fold_emit_frame)
next
  show "\<exists>s' b. on_block_chains H options now bd s = Inr s'
            \<and> latest s' = Some b
            \<and> parentHash (header b) = H (header prev)
            \<and> number (header b) = number (header prev) + 1
            \<and> 0 < number (header b)
            \<and> blocks_store s' (ByNumber (number (header b))) = Some b
            \<and> blocks_store s' (ByHash (H (header b))) = Some b
            \<and> BlockEvent b \<in> set (emitted s')"
    using assms
    by (simp add: on_block_chains_def createBlock_def Let_def putBlock_def blocks_put_def emit_def
        fold_persist_chains_frame)
qed

theorem block_pipeline_links_to_previous_latest_witness:
  "latest chain0 = Some genesis0
   \<and> (\<exists>s' b. on_block hash0 options0 blockData0 chain0 = Inr s'
         \<and> latest s' = Some b
         \<and> parentHash (header b) = [0, 0]
         \<and> number (header b) = 1
         \<and> blocks_store s' (ByNumber 1) = Some b)
   \<and> (\<exists>s' b. on_block_chains hash0 options0 1577836801000 blockData0 chain0 = Inr s'
         \<and> latest s' = Some b
         \<and> parentHash (header b) = [0, 0]
         \<and> number (header b) = 1
         \<and> blocks_store s' (ByNumber 1) = Some b)"
proof -
  have l: "latest chain0 = Some genesis0" by (simp add: chain0_def)
  have h: "hash0 (header genesis0) = [0, 0]" by (simp add: hash0_def genesis0_def)
  have n: "number (header genesis0) = 0" by (simp add: genesis0_def)
  from block_pipeline_links_to_previous_latest [OF l, of hash0 options0 blockData0 1577836801000]
  show ?thesis unfolding h n using l by fastforce
qed

text \<open>
  C2. A run the claim does not survive: on the small chain, \<open>snapshot()\<close> returns 1 and
  records time adjustment 0; \<open>increaseTime(100)\<close> follows and no block is mined;
  \<open>revert(1)\<close> then returns \<open>true\<close> through the branch for an unchanged latest block,
  which returns before the time adjustment is put back: it is still 100, not the
  snapshot's 0.
\<close>

theorem revert_keeps_time_adjustment_when_tip_unchanged:
  "snapshot hash0 chain0 =
     Inr (1, chain0\<lparr>snapshots :=
               [\<lparr>snap_hash = hash0 (header genesis0), snap_stateRoot = [7],
                 snap_timeAdjustment = 0\<rparr>]\<rparr>)
   \<and> revert hash0 (Some 1)
        (snd (increaseTime 100
           (chain0\<lparr>snapshots :=
               [\<lparr>snap_hash = hash0 (header genesis0), snap_stateRoot = [7],
                 snap_timeAdjustment = 0\<rparr>]\<rparr>)))
       = Inr (True, chain0\<lparr>snapshots := [], timeAdjustment := 100\<rparr>)
   \<and> timeAdjustment (chain0\<lparr>snapshots := [], timeAdjustment := 100\<rparr>) \<noteq> 0"
  by (simp add: snapshot_def chain0_def genesis0_def increaseTime_def revert_def Let_def)

text \<open>
  C3. \<open>revert\<close> throws \<open>invalid snapshotId\<close> when the ordinal's raw value is \<open>null\<close> or
  \<open>undefined\<close>; it returns \<open>false\<close>, throws nothing and leaves the chain as it was when
  the ordinal minus one is negative, and when the snapshot stack has no element at that
  index.
\<close>

theorem revert_rejects_bad_ordinals:
  "revert H None s = Inl (Error ''invalid snapshotId'')
   \<and> (rawValue - 1 < 0 \<longrightarrow> revert H (Some rawValue) s = Inr (False, s))
   \<and> (0 \<le> rawValue - 1 \<and> length (snapshots s) \<le> nat (rawValue - 1)
        \<longrightarrow> revert H (Some rawValue) s = Inr (False, s))"
  by (simp add: revert_def Let_def)

theorem revert_rejects_bad_ordinals_witness:
  "revert hash0 None chain0 = Inl (Error ''invalid snapshotId'')
   \<and> (0 :: int) - 1 < 0
   \<and> revert hash0 (Some 0) chain0 = Inr (False, chain0)
   \<and> (0 :: int) \<le> 3 - 1 \<and> length (snapshots chain0) \<le> nat (3 - 1)
   \<and> revert hash0 (Some 3) chain0 = Inr (False, chain0)"
  using revert_rejects_bad_ordinals [of hash0 chain0 0]
    revert_rejects_bad_ordinals [of hash0 chain0 3]
  by (simp add: chain0_def)




text \<open>
  C5. A run the claim does not survive: the started chain is paused and then stopped.
  \<open>stop()\<close> compares the state with \<open>started\<close> alone, so with the \<open>paused\<close> bit set
  it neither closes the database nor changes the state; it only emits \<open>stop\<close>. The state
  is still \<open>started | paused\<close> (17), not \<open>stopped\<close>, and a second \<open>stop()\<close> changes
  nothing either.
\<close>

theorem stop_while_paused_leaves_chain_running:
  "stop (Some genesis0) (pause chain0) = Some (emit Stop (pause chain0))
   \<and> state (emit Stop (pause chain0)) = 17
   \<and> state (emit Stop (pause chain0)) \<noteq> stopped
   \<and> \<not> db_closed (emit Stop (pause chain0))
   \<and> emitted (emit Stop (pause chain0)) = [Pause, Stop]
   \<and> stop (Some genesis0) (emit Stop (pause chain0)) =
       Some (emit Stop (emit Stop (pause chain0)))
   \<and> state (emit Stop (emit Stop (pause chain0))) = 17"
  by (simp add: stop_def pause_def chain0_def emit_def started_def paused_def starting_def
      stopped_def Let_def)

text \<open>
  C6. Once the pool has answered, \<open>queueTransaction\<close> returns the transaction's hash at
  once when the chain is paused or not in instant-mining mode. In legacy instamine mode
  on a chain that is not paused it waits for the race of \<open>transaction:<hash>\<close> against
  \<open>transaction-failure:<hash>\<close>: when the failure fires first it throws that error, with
  the hash attached as \<open>.result\<close> if \<open>vmErrorsOnRPCResponse\<close> is set and untouched if
  not; when the completion fires first it returns the hash.
\<close>

theorem queueTransaction_returns_hash_or_throws_failure:
  "(isPaused s \<or> \<not> instamine options \<longrightarrow>
      queueTransaction options (Inr (accepted, tx)) raced s =
        Some (Inr (tx_hash tx), if accepted then emit (PendingTransaction tx) s else s))
   \<and> (\<not> isPaused s \<and> instamine options \<and> legacyInstamine options \<longrightarrow>
      queueTransaction options (Inr (accepted, tx)) (Failed err) s =
        Some (Inl (VmError (if vmErrorsOnRPCResponse options
                            then err\<lparr>result := Some (tx_hash tx)\<rparr> else err)),
              if accepted then emit (PendingTransaction tx) s else s)
      \<and> queueTransaction options (Inr (accepted, tx)) Completed s =
        Some (Inr (tx_hash tx), if accepted then emit (PendingTransaction tx) s else s))"
  by (simp add: queueTransaction_def Let_def)

theorem queueTransaction_returns_hash_or_throws_failure_witness:
  "isPaused (pause chain0)
   \<and> queueTransaction options0 (Inr (True, tx0)) Neither (pause chain0) =
       Some (Inr [170], emit (PendingTransaction tx0) (pause chain0))
   \<and> \<not> isPaused chain0 \<and> instamine options0 \<and> legacyInstamine options0
   \<and> queueTransaction options0 (Inr (True, tx0))
        (Failed \<lparr>message = ''revert'', result = None\<rparr>) chain0 =
       Some (Inl (VmError \<lparr>message = ''revert'', result = Some [170]\<rparr>),
             emit (PendingTransaction tx0) chain0)
   \<and> queueTransaction options0 (Inr (True, tx0)) Completed chain0 =
       Some (Inr [170], emit (PendingTransaction tx0) chain0)
   \<and> queueTransaction (options0\<lparr>vmErrorsOnRPCResponse := False\<rparr>) (Inr (False, tx0))
        (Failed \<lparr>message = ''revert'', result = None\<rparr>) chain0 =
       Some (Inl (VmError \<lparr>message = ''revert'', result = None\<rparr>), chain0)"
proof -
  have np: "\<not> isPaused chain0"
    by (simp add: isPaused_def chain0_def started_def paused_def)
  have im: "instamine options0" "legacyInstamine options0" "vmErrorsOnRPCResponse options0"
    "instamine (options0\<lparr>vmErrorsOnRPCResponse := False\<rparr>)"
    by (simp_all add: instamine_def options0_def)
  have h: "tx_hash tx0 = [170]" by (simp add: tx0_def)
  show ?thesis
    using queueTransaction_returns_hash_or_throws_failure
        [of "pause chain0" options0 True tx0 Neither]
      queueTransaction_returns_hash_or_throws_failure
        [of chain0 options0 True tx0 _ "\<lparr>message = ''revert'', result = None\<rparr>"]
      queueTransaction_returns_hash_or_throws_failure
        [of chain0 "options0\<lparr>vmErrorsOnRPCResponse := False\<rparr>" False tx0 _
          "\<lparr>message = ''revert'', result = None\<rparr>"]
    by (simp add: np im h isPaused_pause)
qed




text \<open>
  C8. On a chain that has a latest block, \<open>snapshot()\<close> pushes the record made of the
  latest header's hash, the latest header's \<open>stateRoot\<close> and the current time adjustment
  onto the snapshot stack, changes nothing else, and returns the ordinal of the new record:
  one plus its index in the stack.
\<close>

theorem snapshot_pushes_and_returns_ordinal:
  assumes "latest s = Some b"
  shows "snapshot H s =
           Inr (1 + length (snapshots s),
                s\<lparr>snapshots := snapshots s @
                     [\<lparr>snap_hash = H (header b), snap_stateRoot = stateRoot (header b),
                       snap_timeAdjustment = timeAdjustment s\<rparr>]\<rparr>)
         \<and> (snapshots s @
               [\<lparr>snap_hash = H (header b), snap_stateRoot = stateRoot (header b),
                 snap_timeAdjustment = timeAdjustment s\<rparr>]) ! (1 + length (snapshots s) - 1)
             = \<lparr>snap_hash = H (header b), snap_stateRoot = stateRoot (header b),
                 snap_timeAdjustment = timeAdjustment s\<rparr>"
  using assms by (simp add: snapshot_def Let_def)

theorem snapshot_pushes_and_returns_ordinal_witness:
  "latest chain0 = Some genesis0
   \<and> snapshot hash0 chain0 =
       Inr (1, chain0\<lparr>snapshots :=
                 [\<lparr>snap_hash = [0, 0], snap_stateRoot = [7], snap_timeAdjustment = 0\<rparr>]\<rparr>)"
proof -
  have l: "latest chain0 = Some genesis0" by (simp add: chain0_def)
  have v: "hash0 (header genesis0) = [0, 0]" "stateRoot (header genesis0) = [7]"
    "timeAdjustment chain0 = 0" "snapshots chain0 = []"
    by (simp_all add: hash0_def genesis0_def chain0_def)
  show ?thesis
    using snapshot_pushes_and_returns_ordinal [OF l, of hash0] l by (simp add: v)
qed

text \<open>
  C9, as stated: \<open>setTime(t)\<close> sets the time adjustment to the floor of \<open>(t - now) / 1\<close>.
  It does not: five seconds ahead of the clock (\<open>t = 5000\<close>, \<open>now = 0\<close>, in
  milliseconds, where the doubles compute exactly) the adjustment becomes 5, not 5000.
\<close>

theorem setTime_divides_by_one_counterexample:
  "exact_range 0 5000
   \<and> fst (setTime (\<lambda>_ _. 0) 0 5000 chain0) = 5
   \<and> timeAdjustment (snd (setTime (\<lambda>_ _. 0) 0 5000 chain0)) = 5
   \<and> real_of_int (timeAdjustment (snd (setTime (\<lambda>_ _. 0) 0 5000 chain0)))
        \<noteq> of_int \<lfloor>(real_of_int 5000 - real_of_int 0) / 1\<rfloor>"
  by (simp add: setTime_def exact_range_def Let_def)

text \<open>
  C9, amended: for every integer timestamp \<open>t\<close> and clock reading \<open>now\<close>, both in
  milliseconds and at most \<open>2 ^ 53\<close> in magnitude, as is their difference, \<open>setTime(t)\<close>
  sets the time adjustment to the floor of \<open>(t - now) / 1000\<close>, a number of seconds, and
  returns it; and every value \<open>r\<close> within \<open>2 ^ -10\<close> of the exact quotient that is the
  quotient itself when that is an integer, as the double quotient is, has this same floor.
\<close>

theorem setTime_sets_floor_of_seconds:
  assumes "exact_range now t"
  shows "real_of_int (timeAdjustment (snd (setTime beyond now t s)))
           = of_int \<lfloor>(real_of_int t - real_of_int now) / 1000\<rfloor>
         \<and> fst (setTime beyond now t s) = timeAdjustment (snd (setTime beyond now t s))
         \<and> snd (setTime beyond now t s) = s\<lparr>timeAdjustment := (t - now) div 1000\<rparr>
         \<and> (\<bar>r - (real_of_int t - real_of_int now) / 1000\<bar> \<le> 1 / 1024
              \<and> (1000 dvd (t - now) \<longrightarrow> r = (real_of_int t - real_of_int now) / 1000)
              \<longrightarrow> \<lfloor>r\<rfloor> = timeAdjustment (snd (setTime beyond now t s)))"
proof -
  have f: "\<lfloor>(real_of_int t - real_of_int now) / 1000\<rfloor> = (t - now) div 1000"
    by (metis floor_divide_of_int_eq of_int_diff of_int_numeral)
  have v: "setTime beyond now t s =
      ((t - now) div 1000, s\<lparr>timeAdjustment := (t - now) div 1000\<rparr>)"
    using assms by (simp add: setTime_def Let_def)
  have r: "\<lfloor>r\<rfloor> = (t - now) div 1000"
    if "\<bar>r - (real_of_int t - real_of_int now) / 1000\<bar> \<le> 1 / 1024"
      and "1000 dvd (t - now) \<longrightarrow> r = (real_of_int t - real_of_int now) / 1000"
    using that floor_of_rounded_quotient [of r "t - now"] by simp
  show ?thesis using f r by (simp add: v)
qed

theorem setTime_sets_floor_of_seconds_witness:
  "exact_range 1577836800000 1577836805500
   \<and> timeAdjustment (snd (setTime (\<lambda>_ _. 0) 1577836800000 1577836805500 chain0)) = 5
   \<and> fst (setTime (\<lambda>_ _. 0) 1577836800000 1577836805500 chain0) = 5
   \<and> \<bar>(5.5 + 1 / 2048 :: real) - (real_of_int 1577836805500 - real_of_int 1577836800000) / 1000\<bar>
        \<le> 1 / 1024
   \<and> \<not> (1000 :: int) dvd (1577836805500 - 1577836800000)
   \<and> \<lfloor>5.5 + 1 / 2048 :: real\<rfloor> = 5"
proof -
  have e: "exact_range 1577836800000 1577836805500" by (simp add: exact_range_def)
  have d: "(1577836805500 - 1577836800000 :: int) div 1000 = 5" by simp
  have nd: "\<not> (1000 :: int) dvd (1577836805500 - 1577836800000)" by simp
  have n: "\<bar>(5.5 + 1 / 2048 :: real) - (real_of_int 1577836805500 - real_of_int 1577836800000) / 1000\<bar>
        \<le> 1 / 1024" by simp
  from setTime_sets_floor_of_seconds [OF e, of "\<lambda>_ _. 0" chain0 "5.5 + 1 / 2048"]
  show ?thesis using e nd n by (simp add: d)
qed

text \<open>
  C10. \<open>revert\<close>, with its \<open>#deleteBlockData\<close> helper and its handling of the snapshot
  stack, behaves the same in the two source files: for every snapshot stack, ordinal and
  chain state both throw the same error or return the same answer and leave the same
  chain, whose log of writes holds the same deletions of blocks, transactions and
  receipts in the same order.
\<close>

theorem revert_same_in_both_sources:
  "revert_chains H snapshotId s = revert H snapshotId s
   \<and> deleteBlockData_chains H b s = deleteBlockData H b s
   \<and> revert_loop_chains H snapshotHash b s = revert_loop H snapshotHash b s"
  unfolding revert_chains_def revert_def revert_loop_chains_eq deleteBlockData_chains_eq
  by simp

end
